theory Spec2Isabelle
  imports
    Complex_Main
    "HOL-Library.Sublist"
    "HOL-Library.Multiset"
    "HOL-Library.AList"
    "HOL-Library.Char_ord"
    "HOL-Library.List_Lexorder"
begin

section \<open>JavaScript values and strings\<close>

text \<open>
  The functions of the health signal processing core are written in TypeScript. Where a
  parameter can receive any runtime value (a parameter typed \<open>any\<close>, or a typed parameter
  that a test feeds with \<open>null as any\<close>), it is modelled by \<open>js_value\<close>: the primitive
  values, arrays and plain objects (functions and symbols are left out). Numbers are exact
  rationals: the arithmetic of the source is the arithmetic of the model, and the rounding,
  overflow and NaN of IEEE-754 doubles are outside the model. A string is a list of
  one-unit characters; the model's alphabet is the code points up to U+00FF, so the length
  of a string is the number of UTF-16 code units the source counts.
\<close>

datatype js_value =
    JUndefined
  | JNull
  | JBool bool
  | JNum rat
  | JStr string
  | JArray "js_value list"
  | JObject "(string \<times> js_value) list"

text \<open>
  The message of a thrown \<open>Error\<close> is a template literal: literal text and interpolated
  numbers, kept apart because the model does not fix how the runtime prints a number.
\<close>

datatype template_part = Text string | Interpolated rat

datatype js_error =
    Error "template_part list"
  | TypeError string

text \<open>Truthiness, as tested by \<open>!x\<close>, \<open>x && y\<close> and \<open>x || y\<close>.\<close>

fun truthy :: "js_value \<Rightarrow> bool" where
  "truthy JUndefined = False"
| "truthy JNull = False"
| "truthy (JBool b) = b"
| "truthy (JNum n) = (n \<noteq> 0)"
| "truthy (JStr s) = (s \<noteq> [])"
| "truthy (JArray xs) = True"
| "truthy (JObject ps) = True"

fun typeof :: "js_value \<Rightarrow> string" where
  "typeof JUndefined = ''undefined''"
| "typeof JNull = ''object''"
| "typeof (JBool b) = ''boolean''"
| "typeof (JNum n) = ''number''"
| "typeof (JStr s) = ''string''"
| "typeof (JArray xs) = ''object''"
| "typeof (JObject ps) = ''object''"

text \<open>
  \<open>String.prototype.toLowerCase\<close> on the model's alphabet: the ASCII capitals and the
  Latin-1 capitals U+00C0 to U+00DE (the multiplication sign U+00D7 apart) move up by 32.
\<close>

definition toLowerCase_char :: "char \<Rightarrow> char" where
  "toLowerCase_char c =
     (let n = (of_char c :: nat)
      in if (65 \<le> n \<and> n \<le> 90) \<or> (192 \<le> n \<and> n \<le> 222 \<and> n \<noteq> 215)
         then char_of (n + 32) else c)"

definition toLowerCase :: "string \<Rightarrow> string" where
  "toLowerCase s = map toLowerCase_char s"

text \<open>
  The white space that \<open>String.prototype.trim\<close> strips, on the model's alphabet: tab, line
  feed, vertical tab, form feed, carriage return, space and the no-break space U+00A0.
\<close>

definition is_whitespace :: "char \<Rightarrow> bool" where
  "is_whitespace c = ((of_char c :: nat) \<in> {9, 10, 11, 12, 13, 32, 160})"

definition trimStart :: "string \<Rightarrow> string" where
  "trimStart s = dropWhile is_whitespace s"

definition trimEnd :: "string \<Rightarrow> string" where
  "trimEnd s = rev (dropWhile is_whitespace (rev s))"

definition trim :: "string \<Rightarrow> string" where
  "trim s = trimEnd (trimStart s)"

text \<open>
  \<open>String.prototype.includes\<close>: the needle occurs at some position of the haystack.
\<close>

fun includes_js :: "string \<Rightarrow> string \<Rightarrow> bool" where
  "includes_js [] needle = (needle = [])"
| "includes_js (h # hs) needle = (prefix needle (h # hs) \<or> includes_js hs needle)"

text \<open>
  A method call on a runtime value. Reading a property of \<open>null\<close> or \<open>undefined\<close> throws
  a TypeError, and so does calling a method that the value does not have.
\<close>

fun call_toLowerCase :: "js_value \<Rightarrow> js_error + string" where
  "call_toLowerCase (JStr s) = Inr (toLowerCase s)"
| "call_toLowerCase JUndefined =
     Inl (TypeError ''Cannot read properties of undefined (reading 'toLowerCase')'')"
| "call_toLowerCase JNull =
     Inl (TypeError ''Cannot read properties of null (reading 'toLowerCase')'')"
| "call_toLowerCase v = Inl (TypeError ''input.toLowerCase is not a function'')"


section \<open>Emergency safety layer (src/lib/safety.ts)\<close>

record SafetyCheckResult =
  isEmergency :: bool
  emergencyResponse :: "string option"
  detectedKeywords :: "string list option"

definition EMERGENCY_KEYWORDS :: "string list" where
  "EMERGENCY_KEYWORDS =
    [''chest pain'',
     ''heart attack'',
     ''cardiac arrest'',
     ''severe chest pressure'',
     ''difficulty breathing'',
     ''can't breathe'',
     ''cannot breathe'',
     ''choking'',
     ''severe breathlessness'',
     ''gasping for air'',
     ''stroke'',
     ''paralysis'',
     ''sudden weakness'',
     ''facial drooping'',
     ''slurred speech'',
     ''severe headache'',
     ''loss of consciousness'',
     ''unconscious'',
     ''seizure'',
     ''convulsion'',
     ''severe bleeding'',
     ''heavy bleeding'',
     ''profuse bleeding'',
     ''severe injury'',
     ''broken bone'',
     ''head injury'',
     ''severe burn'',
     ''suicide'',
     ''suicidal'',
     ''poisoning'',
     ''overdose'',
     ''severe allergic reaction'',
     ''anaphylaxis'',
     ''severe pain'',
     ''unbearable pain'']"

text \<open>
  The canned advisory texts of \<open>EMERGENCY_RESPONSES\<close> are written in five scripts; their
  wording plays no part in the classification, so the table is a parameter of the model:
  one text for each of the keys \<open>en\<close>, \<open>hi\<close>, \<open>ta\<close>, \<open>te\<close> and \<open>bn\<close>.
\<close>

record emergency_responses =
  en :: string
  hi :: string
  ta :: string
  te :: string
  bn :: string

text \<open>The property read \<open>EMERGENCY_RESPONSES[language]\<close>; \<open>None\<close> is \<open>undefined\<close>.\<close>

definition response_for :: "emergency_responses \<Rightarrow> string \<Rightarrow> string option" where
  "response_for responses language =
     (if language = ''en'' then Some (en responses)
      else if language = ''hi'' then Some (hi responses)
      else if language = ''ta'' then Some (ta responses)
      else if language = ''te'' then Some (te responses)
      else if language = ''bn'' then Some (bn responses)
      else None)"

text \<open>The loop over the keyword table, pushing every keyword the input includes.\<close>

fun collectKeywords :: "string \<Rightarrow> string list \<Rightarrow> string list \<Rightarrow> string list" where
  "collectKeywords normalizedInput [] detected = detected"
| "collectKeywords normalizedInput (keyword # rest) detected =
     collectKeywords normalizedInput rest
       (if includes_js normalizedInput (toLowerCase keyword)
        then detected @ [keyword] else detected)"

definition checkEmergencyKeywords ::
  "emergency_responses \<Rightarrow> js_value \<Rightarrow> string \<Rightarrow> js_error + SafetyCheckResult" where
  "checkEmergencyKeywords responses input language =
     (if \<not> truthy input \<or> typeof input \<noteq> ''string''
      then Inr \<lparr>isEmergency = False, emergencyResponse = None, detectedKeywords = None\<rparr>
      else
        case call_toLowerCase input of
          Inl e \<Rightarrow> Inl e
        | Inr lowered \<Rightarrow>
            let normalizedInput = trim lowered;
                detected = collectKeywords normalizedInput EMERGENCY_KEYWORDS []
            in if length detected > 0
               then Inr \<lparr>isEmergency = True,
                         emergencyResponse =
                           Some (case response_for responses language of
                                   Some r \<Rightarrow> if r \<noteq> [] then r else en responses
                                 | None \<Rightarrow> en responses),
                         detectedKeywords = Some detected\<rparr>
               else Inr \<lparr>isEmergency = False, emergencyResponse = None,
                         detectedKeywords = None\<rparr>)"

text \<open>
  The claims speak of an entry that occurs in the input as a case-insensitive substring:
  the keyword, letter case ignored, is a contiguous part of the text, letter case ignored.
\<close>

definition occurs_ignoring_case :: "string \<Rightarrow> string \<Rightarrow> bool" where
  "occurs_ignoring_case keyword text = sublist (toLowerCase keyword) (toLowerCase text)"


section \<open>Prakriti calculation (src/lib/prakriti-calculator.ts)\<close>

text \<open>
  Modelled from the spec: the declarations of \<open>../types\<close> (\<open>QuizAnswer\<close>,
  \<open>PrakritiScores\<close>, \<open>DoshaType\<close>, \<open>PrakritiProfile\<close>, \<open>SymptomReport\<close>,
  \<open>SymptomEntity\<close>) are not among the sources; the records below have the fields that
  the code reads and writes, with the types the spec's data model gives them.
\<close>

datatype DoshaType = Vata | Pitta | Kapha | Balanced

record PrakritiScores =
  vata :: rat
  pitta :: rat
  kapha :: rat

record QuizAnswer =
  questionId :: int
  answer :: rat
  doshaWeights :: PrakritiScores

text \<open>
  The loop of \<open>calculateRawScores\<close>, which throws at the first answer outside 1 to 5.
\<close>

fun calculateRawScores_loop ::
  "PrakritiScores \<Rightarrow> QuizAnswer list \<Rightarrow> js_error + PrakritiScores" where
  "calculateRawScores_loop scores [] = Inr scores"
| "calculateRawScores_loop scores (a # rest) =
     (if answer a < 1 \<or> answer a > 5
      then Inl (Error [Text ''Invalid answer value: '', Interpolated (answer a),
                       Text ''. Must be between 1 and 5.''])
      else calculateRawScores_loop
             \<lparr>vata = vata scores + answer a * vata (doshaWeights a),
              pitta = pitta scores + answer a * pitta (doshaWeights a),
              kapha = kapha scores + answer a * kapha (doshaWeights a)\<rparr> rest)"

definition calculateRawScores :: "QuizAnswer list \<Rightarrow> js_error + PrakritiScores" where
  "calculateRawScores answers =
     calculateRawScores_loop \<lparr>vata = 0, pitta = 0, kapha = 0\<rparr> answers"

text \<open>\<open>Math.round\<close> rounds to the nearest integer, a tie towards positive infinity.\<close>

definition Math_round :: "rat \<Rightarrow> rat" where
  "Math_round x = of_int \<lfloor>x + 1 / 2\<rfloor>"

definition Math_max :: "rat \<Rightarrow> rat \<Rightarrow> rat \<Rightarrow> rat" where
  "Math_max a b c = max a (max b c)"

definition normalizeScores :: "PrakritiScores \<Rightarrow> PrakritiScores" where
  "normalizeScores rawScores =
     (let maxScore = Math_max (vata rawScores) (pitta rawScores) (kapha rawScores)
      in if maxScore = 0
         then \<lparr>vata = 3333 / 100, pitta = 3333 / 100, kapha = 3333 / 100\<rparr>
         else \<lparr>vata = Math_round ((vata rawScores / maxScore) * 100 * 100) / 100,
               pitta = Math_round ((pitta rawScores / maxScore) * 100 * 100) / 100,
               kapha = Math_round ((kapha rawScores / maxScore) * 100 * 100) / 100\<rparr>)"

text \<open>
  \<open>doshaScores.sort((a, b) => b[1] - a[1])\<close> is a stable sort by descending score:
  \<open>sort_key\<close> on the negated score, which keeps the order of equal scores.
\<close>

definition determineDoshas :: "PrakritiScores \<Rightarrow> DoshaType \<times> DoshaType option" where
  "determineDoshas scores =
     (let doshaScores =
            sort_key (\<lambda>p. - snd p)
              [(Vata, vata scores), (Pitta, pitta scores), (Kapha, kapha scores)];
          firstDosha = fst (doshaScores ! 0);
          firstScore = snd (doshaScores ! 0);
          secondDosha = fst (doshaScores ! 1);
          secondScore = snd (doshaScores ! 1);
          thirdScore = snd (doshaScores ! 2);
          scoreRange = firstScore - thirdScore;
          isBalanced = (scoreRange \<le> 10)
      in if isBalanced then (Balanced, None)
         else
           let hasSecondary = (firstScore - secondScore \<le> 15 \<and> secondScore > thirdScore)
           in (firstDosha, if hasSecondary then Some secondDosha else None))"

record PrakritiProfile =
  userId :: string
  scores :: PrakritiScores
  dominant :: DoshaType
  secondary :: "DoshaType option"
  assessmentDate :: string

text \<open>The clock read by \<open>new Date().toISOString()\<close> is the parameter \<open>now\<close>.\<close>

definition calculatePrakriti ::
  "string \<Rightarrow> string \<Rightarrow> QuizAnswer list \<Rightarrow> js_error + PrakritiProfile" where
  "calculatePrakriti now uid answers =
     (if uid = [] \<or> trim uid = [] then Inl (Error [Text ''userId is required''])
      else if length answers = 0 then Inl (Error [Text ''At least one answer is required''])
      else
        case calculateRawScores answers of
          Inl e \<Rightarrow> Inl e
        | Inr rawScores \<Rightarrow>
            let normalizedScores = normalizeScores rawScores;
                (dom, sec) = determineDoshas normalizedScores
            in Inr \<lparr>userId = uid, scores = normalizedScores, dominant = dom,
                     secondary = sec, assessmentDate = now\<rparr>)"


section \<open>Privacy utilities and aggregation (src/lib/dynamodb-utils.ts)\<close>

text \<open>
  A plain JavaScript object is the list of its own properties in insertion order; a
  property that is absent reads as \<open>undefined\<close>.
\<close>

type_synonym js_object = "(string \<times> js_value) list"

definition hasOwnProperty :: "js_object \<Rightarrow> string \<Rightarrow> bool" where
  "hasOwnProperty obj key = (key \<in> set (map fst obj))"

definition get_property :: "js_object \<Rightarrow> string \<Rightarrow> js_value" where
  "get_property obj key = (case map_of obj key of Some v \<Rightarrow> v | None \<Rightarrow> JUndefined)"


datatype Severity = Low | Medium | High

fun severity_string :: "Severity \<Rightarrow> string" where
  "severity_string Low = ''low''"
| "severity_string Medium = ''medium''"
| "severity_string High = ''high''"

record Location =
  pincode :: string

text \<open>
  Modelled from the spec: \<open>SymptomReport\<close> is declared in \<open>../types\<close>, which is not
  among the sources; it has the fields that \<open>anonymizeForSentinel\<close> reads. The
  parameter of that function is a \<open>SymptomReport\<close> extended by the optional personal
  fields \<open>name\<close>, \<open>phone\<close>, \<open>email\<close> and \<open>fullAddress\<close>.
\<close>

record SymptomReport =
  userId :: string
  symptomType :: string
  severity :: Severity
  location :: Location
  timestamp :: int
  name :: "string option"
  phone :: "string option"
  email :: "string option"
  fullAddress :: "string option"

definition default_salt :: string where
  "default_salt = ''default-salt-change-in-production''"

text \<open>
  The digest \<open>createHash('sha256').update(_).digest('hex')\<close> is the platform's, the
  parameter \<open>sha256_hex\<close>; \<open>HASH_SALT\<close> is the environment variable read by the default
  value of \<open>salt\<close>, which applies when the argument is omitted.
\<close>

definition anonymizeForSentinel ::
  "(string \<Rightarrow> string) \<Rightarrow> string option \<Rightarrow> SymptomReport \<Rightarrow> string option \<Rightarrow> js_object" where
  "anonymizeForSentinel sha256_hex HASH_SALT report salt_arg =
     (let salt = (case salt_arg of
                    Some s \<Rightarrow> s
                  | None \<Rightarrow> (case HASH_SALT of
                               Some e \<Rightarrow> if e \<noteq> [] then e else default_salt
                             | None \<Rightarrow> default_salt));
          hashedUserId = sha256_hex (SymptomReport.userId report @ salt)
      in [(''hashedUserId'', JStr hashedUserId),
          (''symptomType'', JStr (symptomType report)),
          (''severity'', JStr (severity_string (severity report))),
          (''pincode'', JStr (pincode (location report))),
          (''timestamp'', JNum (of_int (timestamp report)))])"





text \<open>
  Modelled from the spec: \<open>SymptomEntity\<close> is declared in \<open>../types\<close>, which is not
  among the sources; it has the fields that the region query and the aggregation read
  (\<open>count_field\<close> is the field \<open>count\<close>, an integer).
\<close>

record SymptomEntity =
  symptomType :: string
  date :: string
  count_field :: int






section \<open>Verification: the emergency safety layer\<close>

subsection \<open>Substring search and trimming\<close>

lemma includes_js_sublist: "includes_js h n \<longleftrightarrow> sublist n h"
  by (induction h) (auto simp: sublist_Cons_right)

lemma sublist_skip_prefix:
  assumes "\<forall>c\<in>set p. P c" and "k \<noteq> []" and "\<not> P (hd k)"
  shows "sublist k (p @ r) \<longleftrightarrow> sublist k r"
  using assms
proof (induction p)
  case Nil
  then show ?case by simp
next
  case (Cons c p)
  from Cons.prems obtain h t where k: "k = h # t" by (cases k) auto
  with Cons.prems have "h \<noteq> c" by auto
  with k have "\<not> prefix k (c # p @ r)" by simp
  with Cons show ?case by (simp add: sublist_Cons_right)
qed

lemma sublist_dropWhile:
  assumes "k \<noteq> []" and "\<not> P (hd k)"
  shows "sublist k (dropWhile P s) \<longleftrightarrow> sublist k s"
proof -
  have "\<forall>c\<in>set (takeWhile P s). P c"
    by (auto dest: set_takeWhileD)
  then have "sublist k (takeWhile P s @ dropWhile P s) \<longleftrightarrow> sublist k (dropWhile P s)"
    using assms by (rule sublist_skip_prefix)
  then show ?thesis by simp
qed

lemma sublist_trimStart:
  assumes "k \<noteq> []" and "\<not> is_whitespace (hd k)"
  shows "sublist k (trimStart s) \<longleftrightarrow> sublist k s"
  using assms by (simp add: trimStart_def sublist_dropWhile)

lemma sublist_trimEnd:
  assumes "k \<noteq> []" and "\<not> is_whitespace (last k)"
  shows "sublist k (trimEnd s) \<longleftrightarrow> sublist k s"
proof -
  have "sublist (rev k) (dropWhile is_whitespace (rev s)) \<longleftrightarrow> sublist (rev k) (rev s)"
    using assms by (intro sublist_dropWhile) (simp_all add: hd_rev)
  then show ?thesis
    by (simp add: trimEnd_def sublist_rev_right)
qed

text \<open>
  Trimming the text changes nothing for a needle that neither starts nor ends with white
  space.
\<close>

lemma sublist_trim:
  assumes "k \<noteq> [] \<and> \<not> is_whitespace (hd k) \<and> \<not> is_whitespace (last k)"
  shows "sublist k (trim s) \<longleftrightarrow> sublist k s"
  using assms by (simp add: trim_def sublist_trimEnd sublist_trimStart)


subsection \<open>The keyword table and the scan\<close>

lemma keywords_untrimmed:
  "\<forall>k\<in>set EMERGENCY_KEYWORDS.
     toLowerCase k \<noteq> [] \<and> \<not> is_whitespace (hd (toLowerCase k))
     \<and> \<not> is_whitespace (last (toLowerCase k))"
  by code_simp

lemma distinct_keywords: "distinct EMERGENCY_KEYWORDS"
  by (simp add: EMERGENCY_KEYWORDS_def)

lemma collectKeywords_filter:
  "collectKeywords n kws acc = acc @ filter (\<lambda>k. includes_js n (toLowerCase k)) kws"
  by (induction kws arbitrary: acc) auto

lemma collect_matches:
  "collectKeywords (trim (toLowerCase s)) EMERGENCY_KEYWORDS [] =
     filter (\<lambda>k. occurs_ignoring_case k s) EMERGENCY_KEYWORDS"
proof -
  have "includes_js (trim (toLowerCase s)) (toLowerCase k) \<longleftrightarrow> occurs_ignoring_case k s"
    if "k \<in> set EMERGENCY_KEYWORDS" for k
    using that keywords_untrimmed
    by (simp add: includes_js_sublist sublist_trim occurs_ignoring_case_def)
  then show ?thesis
    by (simp add: collectKeywords_filter cong: filter_cong)
qed

lemma no_match_in_empty: "filter (\<lambda>k. occurs_ignoring_case k []) EMERGENCY_KEYWORDS = []"
proof -
  have "\<not> occurs_ignoring_case k []" if "k \<in> set EMERGENCY_KEYWORDS" for k
    using that keywords_untrimmed
    by (auto simp: occurs_ignoring_case_def toLowerCase_def)
  then show ?thesis by (simp add: filter_empty_conv)
qed

lemma checkEmergencyKeywords_JStr:
  "checkEmergencyKeywords responses (JStr s) language =
     (let detected = filter (\<lambda>k. occurs_ignoring_case k s) EMERGENCY_KEYWORDS
      in if detected \<noteq> []
         then Inr \<lparr>isEmergency = True,
                   emergencyResponse =
                     Some (case response_for responses language of
                             Some r \<Rightarrow> if r \<noteq> [] then r else en responses
                           | None \<Rightarrow> en responses),
                   detectedKeywords = Some detected\<rparr>
         else Inr \<lparr>isEmergency = False, emergencyResponse = None, detectedKeywords = None\<rparr>)"
proof (cases "s = []")
  case True
  then show ?thesis
    by (simp add: checkEmergencyKeywords_def no_match_in_empty)
next
  case False
  then show ?thesis
    by (simp add: checkEmergencyKeywords_def collect_matches Let_def)
qed

lemma checkEmergencyKeywords_not_string:
  assumes "\<not> truthy input \<or> typeof input \<noteq> ''string''"
  shows "checkEmergencyKeywords responses input language =
     Inr \<lparr>isEmergency = False, emergencyResponse = None, detectedKeywords = None\<rparr>"
  using assms by (simp add: checkEmergencyKeywords_def)

text \<open>
  C2. \<open>checkEmergencyKeywords\<close> is total: on every input value it returns a result and
  throws nothing; on \<open>null\<close>, on the empty string and on every value that is not a string
  the result has \<open>isEmergency = false\<close>, no keywords and no advisory text.
\<close>

theorem checkEmergencyKeywords_never_throws:
  "(\<exists>r. checkEmergencyKeywords responses input language = Inr r) \<and>
   (input = JNull \<or> input = JStr [] \<or> typeof input \<noteq> ''string'' \<longrightarrow>
      checkEmergencyKeywords responses input language =
        Inr \<lparr>isEmergency = False, emergencyResponse = None, detectedKeywords = None\<rparr>)"
proof (cases input)
  case (JStr s)
  then show ?thesis
    by (auto simp: checkEmergencyKeywords_JStr Let_def no_match_in_empty)
qed (simp_all add: checkEmergencyKeywords_not_string)

theorem checkEmergencyKeywords_never_throws_witness:
  "typeof JNull \<noteq> ''string'' \<and>
   checkEmergencyKeywords
     \<lparr>en = ''EN'', hi = ''HI'', ta = ''TA'', te = ''TE'', bn = ''BN''\<rparr> JNull ''en''
     = Inr \<lparr>isEmergency = False, emergencyResponse = None, detectedKeywords = None\<rparr>"
  using checkEmergencyKeywords_never_throws
    [of "\<lparr>en = ''EN'', hi = ''HI'', ta = ''TA'', te = ''TE'', bn = ''BN''\<rparr>" JNull "''en''"]
  by simp

text \<open>
  C8. On a string input, every entry of the keyword table is tried as a case-insensitive
  substring and all matching entries are collected: \<open>isEmergency\<close> holds exactly when
  some entry matches, and then \<open>detectedKeywords\<close> holds every matching entry.
\<close>

theorem checkEmergencyKeywords_collects_all:
  "\<exists>r. checkEmergencyKeywords responses (JStr s) language = Inr r \<and>
     (isEmergency r \<longleftrightarrow> {k \<in> set EMERGENCY_KEYWORDS. occurs_ignoring_case k s} \<noteq> {}) \<and>
     (isEmergency r \<longrightarrow>
        (\<exists>ks. detectedKeywords r = Some ks \<and>
              set ks = {k \<in> set EMERGENCY_KEYWORDS. occurs_ignoring_case k s}))"
  by (auto simp: checkEmergencyKeywords_JStr Let_def filter_empty_conv)

theorem checkEmergencyKeywords_collects_all_witness:
  "\<exists>r ks. checkEmergencyKeywords
            \<lparr>en = ''EN'', hi = ''HI'', ta = ''TA'', te = ''TE'', bn = ''BN''\<rparr>
            (JStr ''CHEST PAIN'') ''fr'' = Inr r \<and>
     isEmergency r \<and> emergencyResponse r = Some ''EN'' \<and>
     detectedKeywords r = Some ks \<and> ''chest pain'' \<in> set ks \<and>
     set ks = {k \<in> set EMERGENCY_KEYWORDS. occurs_ignoring_case k ''CHEST PAIN''}"
proof -
  have run: "checkEmergencyKeywords
            \<lparr>en = ''EN'', hi = ''HI'', ta = ''TA'', te = ''TE'', bn = ''BN''\<rparr>
            (JStr ''CHEST PAIN'') ''fr'' =
          Inr \<lparr>isEmergency = True, emergencyResponse = Some ''EN'',
                detectedKeywords = Some [''chest pain'']\<rparr>"
    by code_simp
  show ?thesis
    using checkEmergencyKeywords_collects_all
      [of "\<lparr>en = ''EN'', hi = ''HI'', ta = ''TA'', te = ''TE'', bn = ''BN''\<rparr>"
          "''CHEST PAIN''" "''fr''"]
    unfolding run by auto
qed

text \<open>
  C10. When an emergency is detected on a string input, \<open>detectedKeywords\<close> lists the
  matching entries in the order of the keyword table, each one once, spelled as the table
  spells it and not as the input does.
\<close>

theorem detectedKeywords_in_table_order:
  assumes "checkEmergencyKeywords responses (JStr s) language = Inr r"
    and "isEmergency r"
  shows "\<exists>ks. detectedKeywords r = Some ks \<and>
           ks = filter (\<lambda>k. occurs_ignoring_case k s) EMERGENCY_KEYWORDS \<and>
           subseq ks EMERGENCY_KEYWORDS \<and> distinct ks"
  using assms distinct_keywords
  by (auto simp: checkEmergencyKeywords_JStr Let_def split: if_splits)

theorem detectedKeywords_in_table_order_witness:
  "[''heart attack'', ''stroke''] =
     filter (\<lambda>k. occurs_ignoring_case k ''Stroke, Heart Attack'') EMERGENCY_KEYWORDS \<and>
   subseq [''heart attack'', ''stroke''] EMERGENCY_KEYWORDS \<and>
   distinct [''heart attack'', ''stroke'']"
proof -
  let ?r = "\<lparr>isEmergency = True, emergencyResponse = Some ''HI'',
             detectedKeywords = Some [''heart attack'', ''stroke'']\<rparr>"
  have run: "checkEmergencyKeywords
            \<lparr>en = ''EN'', hi = ''HI'', ta = ''TA'', te = ''TE'', bn = ''BN''\<rparr>
            (JStr ''Stroke, Heart Attack'') ''hi'' = Inr ?r"
    by code_simp
  have em: "isEmergency ?r" by simp
  from detectedKeywords_in_table_order [OF run em]
  obtain ks where a: "detectedKeywords ?r = Some ks"
    and b: "ks = filter (\<lambda>k. occurs_ignoring_case k ''Stroke, Heart Attack'') EMERGENCY_KEYWORDS"
    and c: "subseq ks EMERGENCY_KEYWORDS" "distinct ks"
    by blast
  from a have k: "[''heart attack'', ''stroke''] = ks" by simp
  show ?thesis unfolding k by (rule conjI [OF b conjI [OF c]])
qed


section \<open>Verification: the Prakriti calculation\<close>

subsection \<open>Validation\<close>



lemma calculatePrakriti_Inr:
  assumes "calculatePrakriti now uid answers = Inr p"
  shows "\<exists>raw. calculateRawScores answers = Inr raw \<and>
           scores p = normalizeScores raw \<and>
           determineDoshas (normalizeScores raw) = (dominant p, secondary p)"
  using assms
  by (auto simp: calculatePrakriti_def Let_def split: if_splits sum.splits prod.splits)

subsection \<open>Scores and ranking\<close>

lemma determineDoshas_balanced:
  assumes "determineDoshas s = (d, sec)"
  shows "(d = Balanced \<longleftrightarrow>
            max (vata s) (max (pitta s) (kapha s)) - min (vata s) (min (pitta s) (kapha s)) \<le> 10)
         \<and> (d = Balanced \<longrightarrow> sec = None)"
  using assms
  by (auto simp: determineDoshas_def Let_def split: if_splits)




text \<open>
  C3. For every profile that \<open>calculatePrakriti\<close> returns, \<open>dominant\<close> is \<open>balanced\<close>
  exactly when the largest of the three normalized scores minus the smallest is at most
  10; a balanced profile has no secondary dosha.
\<close>

theorem balanced_iff_score_range_at_most_10:
  assumes "calculatePrakriti now uid answers = Inr p"
  shows "(dominant p = Balanced \<longleftrightarrow>
            max (vata (scores p)) (max (pitta (scores p)) (kapha (scores p)))
              - min (vata (scores p)) (min (pitta (scores p)) (kapha (scores p))) \<le> 10)
         \<and> (dominant p = Balanced \<longrightarrow> secondary p = None)"
proof -
  from calculatePrakriti_Inr [OF assms] obtain raw
    where "scores p = normalizeScores raw"
      and "determineDoshas (normalizeScores raw) = (dominant p, secondary p)"
    by blast
  then have "determineDoshas (scores p) = (dominant p, secondary p)" by simp
  then show ?thesis by (rule determineDoshas_balanced)
qed

theorem balanced_iff_score_range_at_most_10_witness:
  "\<exists>p. calculatePrakriti ''2026-11-03T00:00:00.000Z'' ''user-balanced''
          [\<lparr>questionId = 1, answer = 3, doshaWeights = \<lparr>vata = 1, pitta = 1, kapha = 95 / 100\<rparr>\<rparr>,
           \<lparr>questionId = 2, answer = 3, doshaWeights = \<lparr>vata = 1, pitta = 1, kapha = 1\<rparr>\<rparr>] = Inr p \<and>
        scores p = \<lparr>vata = 100, pitta = 100, kapha = 195 / 2\<rparr> \<and>
        dominant p = Balanced \<and> secondary p = None"
proof -
  let ?p = "\<lparr>PrakritiProfile.userId = ''user-balanced'',
             scores = \<lparr>vata = 100, pitta = 100, kapha = 195 / 2\<rparr>,
             dominant = Balanced, secondary = None,
             assessmentDate = ''2026-11-03T00:00:00.000Z''\<rparr>"
  have run: "calculatePrakriti ''2026-11-03T00:00:00.000Z'' ''user-balanced''
          [\<lparr>questionId = 1, answer = 3, doshaWeights = \<lparr>vata = 1, pitta = 1, kapha = 95 / 100\<rparr>\<rparr>,
           \<lparr>questionId = 2, answer = 3, doshaWeights = \<lparr>vata = 1, pitta = 1, kapha = 1\<rparr>\<rparr>] = Inr ?p"
    by code_simp
  from balanced_iff_score_range_at_most_10 [OF run]
  have "dominant ?p = Balanced \<and> secondary ?p = None" by simp
  with run show ?thesis by simp
qed







section \<open>Verification: anonymization, validation and aggregation\<close>

text \<open>
  C1. For every symptom report, with or without the personal fields \<open>name\<close>, \<open>phone\<close>,
  \<open>email\<close> and \<open>fullAddress\<close>, the record that \<open>anonymizeForSentinel\<close> returns has the
  keys \<open>hashedUserId\<close>, \<open>symptomType\<close>, \<open>severity\<close>, \<open>pincode\<close> and \<open>timestamp\<close> and no
  other; none of the four personal keys is among them, and \<open>pincode\<close> is the pincode of
  the report, unchanged.
\<close>

theorem anonymizeForSentinel_strips_pii:
  "map fst (anonymizeForSentinel sha256_hex HASH_SALT report salt_arg) =
     [''hashedUserId'', ''symptomType'', ''severity'', ''pincode'', ''timestamp''] \<and>
   \<not> hasOwnProperty (anonymizeForSentinel sha256_hex HASH_SALT report salt_arg) ''name'' \<and>
   \<not> hasOwnProperty (anonymizeForSentinel sha256_hex HASH_SALT report salt_arg) ''phone'' \<and>
   \<not> hasOwnProperty (anonymizeForSentinel sha256_hex HASH_SALT report salt_arg) ''email'' \<and>
   \<not> hasOwnProperty (anonymizeForSentinel sha256_hex HASH_SALT report salt_arg) ''fullAddress'' \<and>
   get_property (anonymizeForSentinel sha256_hex HASH_SALT report salt_arg) ''pincode'' =
     JStr (pincode (location report))"
  by (simp add: anonymizeForSentinel_def Let_def hasOwnProperty_def get_property_def)

theorem anonymizeForSentinel_strips_pii_witness:
  "\<not> hasOwnProperty
      (anonymizeForSentinel rev None
         \<lparr>SymptomReport.userId = ''user-1'', symptomType = ''fever'', severity = High,
          location = \<lparr>pincode = ''110001''\<rparr>, timestamp = 1700000000000,
          name = Some ''Asha'', phone = Some ''5550100'', email = Some ''a@example.org'',
          fullAddress = Some ''12 Temple Road''\<rparr> (Some ''pepper'')) ''name'' \<and>
   get_property
      (anonymizeForSentinel rev None
         \<lparr>SymptomReport.userId = ''user-1'', symptomType = ''fever'', severity = High,
          location = \<lparr>pincode = ''110001''\<rparr>, timestamp = 1700000000000,
          name = Some ''Asha'', phone = Some ''5550100'', email = Some ''a@example.org'',
          fullAddress = Some ''12 Temple Road''\<rparr> (Some ''pepper'')) ''pincode'' = JStr ''110001''"
  using anonymizeForSentinel_strips_pii [of rev None
         "\<lparr>SymptomReport.userId = ''user-1'', symptomType = ''fever'', severity = High,
          location = \<lparr>pincode = ''110001''\<rparr>, timestamp = 1700000000000,
          name = Some ''Asha'', phone = Some ''5550100'', email = Some ''a@example.org'',
          fullAddress = Some ''12 Temple Road''\<rparr>" "Some ''pepper''"]
  by simp

subsection \<open>The privacy guard\<close>








subsection \<open>Aggregation\<close>








end
